theory Spec2Isabelle
  imports Complex_Main
begin

section \<open>JavaScript values\<close>

text \<open>
  The front end receives JSON from its backend and handles it with JavaScript's dynamic
  operators (\<open>||\<close>, \<open>??\<close>, \<open>?.\<close>, \<open>Array.isArray\<close>, template literals). The values are
  modelled as a datatype. A number is a finite value (a rational stands for the double),
  \<open>NaN\<close> or an infinity. A string is a \<open>char list\<close>: ASCII text, with every character
  beyond ASCII in its UTF-8 bytes. An object is an association list with distinct keys.
\<close>

datatype jsnum = Fin rat | NaN | PosInf | NegInf

datatype jsval =
    JUndefined
  | JNull
  | JBool bool
  | JNum jsnum
  | JStr string
  | JArr "jsval list"
  | JObj "(string \<times> jsval) list"

text \<open>\<open>ToBoolean\<close>: what \<open>if (v)\<close>, \<open>!v\<close>, \<open>a || b\<close> and \<open>a && b\<close> test.\<close>

fun truthy :: "jsval \<Rightarrow> bool" where
  "truthy JUndefined = False"
| "truthy JNull = False"
| "truthy (JBool b) = b"
| "truthy (JNum n) = (case n of Fin r \<Rightarrow> r \<noteq> 0 | NaN \<Rightarrow> False | PosInf \<Rightarrow> True | NegInf \<Rightarrow> True)"
| "truthy (JStr s) = (s \<noteq> [])"
| "truthy (JArr xs) = True"
| "truthy (JObj fs) = True"

text \<open>\<open>a || b\<close> and \<open>a ?? b\<close> on values.\<close>

definition js_or :: "jsval \<Rightarrow> jsval \<Rightarrow> jsval" where
  "js_or a b = (if truthy a then a else b)"

definition nullish :: "jsval \<Rightarrow> bool" where
  "nullish v = (v = JUndefined \<or> v = JNull)"

definition js_coalesce :: "jsval \<Rightarrow> jsval \<Rightarrow> jsval" where
  "js_coalesce a b = (if nullish a then b else a)"

text \<open>
  Reading a property \<open>v.k\<close> of a value that is neither \<open>null\<close> nor \<open>undefined\<close>. The
  property names the program reads (\<open>incident\<close>, \<open>options\<close>, \<open>message\<close>, \<open>chart\<close>, ...)
  are own properties of a JSON object or nothing; only \<open>values\<close> is also a method of
  every array, and the one place that reads it tests the result with \<open>Array.isArray\<close>,
  where a method and \<open>undefined\<close> behave alike.
\<close>

definition js_prop :: "jsval \<Rightarrow> string \<Rightarrow> jsval" where
  "js_prop v k =
     (case v of
        JObj fs \<Rightarrow> (case map_of fs k of Some x \<Rightarrow> x | None \<Rightarrow> JUndefined)
      | _ \<Rightarrow> JUndefined)"

text \<open>Optional chaining \<open>v?.k\<close>.\<close>

definition opt_prop :: "jsval \<Rightarrow> string \<Rightarrow> jsval" where
  "opt_prop v k = (if nullish v then JUndefined else js_prop v k)"

definition isArray :: "jsval \<Rightarrow> bool" where
  "isArray v = (case v of JArr xs \<Rightarrow> True | _ \<Rightarrow> False)"

definition elems :: "jsval \<Rightarrow> jsval list" where
  "elems v = (case v of JArr xs \<Rightarrow> xs | _ \<Rightarrow> [])"

text \<open>\<open>typeof v === "object"\<close>: objects, arrays and \<open>null\<close>.\<close>

definition typeof_object :: "jsval \<Rightarrow> bool" where
  "typeof_object v = (case v of JObj fs \<Rightarrow> True | JArr xs \<Rightarrow> True | JNull \<Rightarrow> True | _ \<Rightarrow> False)"

definition typeof_string :: "jsval \<Rightarrow> bool" where
  "typeof_string v = (case v of JStr s \<Rightarrow> True | _ \<Rightarrow> False)"

definition isFinite :: "jsnum \<Rightarrow> bool" where
  "isFinite n = (case n of Fin r \<Rightarrow> True | _ \<Rightarrow> False)"

text \<open>
  An error value, as a \<open>catch\<close> clause sees it: the object axios rejects with (its
  \<open>response\<close> is \<open>undefined\<close> when no response arrived) or an \<open>Error\<close> the runtime or
  the program threw.
\<close>

record failure =
  err_name :: string
  err_message :: jsval
  err_response :: jsval

text \<open>
  What the language runtime does and the repository does not define is a parameter of
  the model: the parsing of a string as a number, the printing of a finite number,
  \<open>JSON.stringify\<close> (the value, the indentation), the message of the \<open>TypeError\<close>
  raised when a property of \<open>null\<close> or \<open>undefined\<close> is read, and the Unicode lower-casing
  of a string that holds a character beyond ASCII.
\<close>

record js_env =
  StringToNumber :: "string \<Rightarrow> jsnum"
  FiniteToString :: "rat \<Rightarrow> string"
  JSON_stringify :: "jsval \<Rightarrow> nat \<Rightarrow> jsval"
  TypeError_message :: "jsval \<Rightarrow> string \<Rightarrow> string"
  UnicodeToLowerCase :: "string \<Rightarrow> string"

definition TypeError :: "js_env \<Rightarrow> jsval \<Rightarrow> string \<Rightarrow> failure" where
  "TypeError env v k =
     \<lparr>err_name = ''TypeError'', err_message = JStr (TypeError_message env v k),
      err_response = JUndefined\<rparr>"

text \<open>A plain property read \<open>v.k\<close>: it throws on \<open>null\<close> and \<open>undefined\<close>.\<close>

definition get_prop :: "js_env \<Rightarrow> jsval \<Rightarrow> string \<Rightarrow> failure + jsval" where
  "get_prop env v k = (if nullish v then Inl (TypeError env v k) else Inr (js_prop v k))"

text \<open>\<open>Array.prototype.join\<close> on strings already converted.\<close>

fun join_with :: "string \<Rightarrow> string list \<Rightarrow> string" where
  "join_with sep [] = []"
| "join_with sep [x] = x"
| "join_with sep (x # y # ys) = x @ sep @ join_with sep (y # ys)"

text \<open>
  \<open>ToString\<close>, which a template literal applies to each \<open>${...}\<close>. An array prints its
  elements joined by commas, with \<open>null\<close> and \<open>undefined\<close> elements empty; an object
  prints as \<open>[object Object]\<close>.
\<close>

fun ToString :: "js_env \<Rightarrow> jsval \<Rightarrow> string" where
  "ToString env JUndefined = ''undefined''"
| "ToString env JNull = ''null''"
| "ToString env (JBool b) = (if b then ''true'' else ''false'')"
| "ToString env (JNum n) =
     (case n of Fin r \<Rightarrow> FiniteToString env r | NaN \<Rightarrow> ''NaN''
      | PosInf \<Rightarrow> ''Infinity'' | NegInf \<Rightarrow> ''-Infinity'')"
| "ToString env (JStr s) = s"
| "ToString env (JArr xs) =
     join_with '','' (map (\<lambda>x. if nullish x then [] else ToString env x) xs)"
| "ToString env (JObj fs) = ''[object Object]''"

text \<open>\<open>Number(v)\<close>: an array or object is first converted to its string.\<close>

definition ToNumber :: "js_env \<Rightarrow> jsval \<Rightarrow> jsnum" where
  "ToNumber env v =
     (case v of
        JUndefined \<Rightarrow> NaN
      | JNull \<Rightarrow> Fin 0
      | JBool b \<Rightarrow> (if b then Fin 1 else Fin 0)
      | JNum n \<Rightarrow> n
      | JStr s \<Rightarrow> StringToNumber env s
      | JArr xs \<Rightarrow> StringToNumber env (ToString env v)
      | JObj fs \<Rightarrow> StringToNumber env (ToString env v))"

section \<open>Strings\<close>

text \<open>
  \<open>String.prototype.toLowerCase\<close>. On a string of ASCII characters it lowers the
  letters A to Z and changes nothing else. On a string that holds a character beyond
  ASCII the result is the runtime's Unicode case conversion (which lowers U+212A to
  \<open>k\<close> and U+0130 to \<open>i\<close> and a combining dot, and has rules that depend on the
  context), a parameter of the model.

  \<open>toUpperCase\<close> is applied to the text matched by \<open>/\bINC\d+\b/i\<close> only, which
  consists of ASCII letters and digits (lemma \<open>incident_match_ascii\<close> below); on such
  text it raises the letters a to z.
\<close>

definition is_ascii :: "char \<Rightarrow> bool" where
  "is_ascii c = ((of_char c :: nat) < 128)"

definition lower_char :: "char \<Rightarrow> char" where
  "lower_char c =
     (let n = (of_char c :: nat) in if 65 \<le> n \<and> n \<le> 90 then char_of (n + 32) else c)"

definition upper_char :: "char \<Rightarrow> char" where
  "upper_char c =
     (let n = (of_char c :: nat) in if 97 \<le> n \<and> n \<le> 122 then char_of (n - 32) else c)"

definition toLowerCase :: "js_env \<Rightarrow> string \<Rightarrow> string" where
  "toLowerCase env s = (if list_all is_ascii s then map lower_char s else UnicodeToLowerCase env s)"

definition toUpperCase :: "string \<Rightarrow> string" where
  "toUpperCase s = map upper_char s"

fun startsWith :: "string \<Rightarrow> string \<Rightarrow> bool" where
  "startsWith s [] = True"
| "startsWith [] (n # ns) = False"
| "startsWith (c # cs) (n # ns) = (c = n \<and> startsWith cs ns)"

text \<open>\<open>String.prototype.includes\<close>: the needle occurs as a contiguous substring.\<close>

fun js_includes :: "string \<Rightarrow> string \<Rightarrow> bool" where
  "js_includes [] n = (n = [])"
| "js_includes (c # cs) n = (startsWith (c # cs) n \<or> js_includes cs n)"

text \<open>
  \<open>String.prototype.trim\<close> removes white space and line terminators at both ends:
  the ASCII ones (tab, line feed, vertical tab, form feed, carriage return, space) and,
  in their UTF-8 bytes, U+00A0, U+1680, U+2000 to U+200A, U+2028, U+2029, U+202F,
  U+205F, U+3000 and U+FEFF.
\<close>

definition ascii_space :: "char \<Rightarrow> bool" where
  "ascii_space c = (let n = (of_char c :: nat) in (9 \<le> n \<and> n \<le> 13) \<or> n = 32)"

definition unicode_spaces :: "string list" where
  "unicode_spaces =
     [[CHR 0xC2, CHR 0xA0], [CHR 0xE1, CHR 0x9A, CHR 0x80],
      [CHR 0xE2, CHR 0x80, CHR 0x80], [CHR 0xE2, CHR 0x80, CHR 0x81],
      [CHR 0xE2, CHR 0x80, CHR 0x82], [CHR 0xE2, CHR 0x80, CHR 0x83],
      [CHR 0xE2, CHR 0x80, CHR 0x84], [CHR 0xE2, CHR 0x80, CHR 0x85],
      [CHR 0xE2, CHR 0x80, CHR 0x86], [CHR 0xE2, CHR 0x80, CHR 0x87],
      [CHR 0xE2, CHR 0x80, CHR 0x88], [CHR 0xE2, CHR 0x80, CHR 0x89],
      [CHR 0xE2, CHR 0x80, CHR 0x8A], [CHR 0xE2, CHR 0x80, CHR 0xA8],
      [CHR 0xE2, CHR 0x80, CHR 0xA9], [CHR 0xE2, CHR 0x80, CHR 0xAF],
      [CHR 0xE2, CHR 0x81, CHR 0x9F], [CHR 0xE3, CHR 0x80, CHR 0x80],
      [CHR 0xEF, CHR 0xBB, CHR 0xBF]]"

fun strip_spaces :: "string list \<Rightarrow> string \<Rightarrow> string" where
  "strip_spaces ws [] = []"
| "strip_spaces ws (c # cs) =
     (if ascii_space c then strip_spaces ws cs
      else (case find (startsWith (c # cs)) ws of
              Some w \<Rightarrow> strip_spaces ws (drop (length w - 1) cs)
            | None \<Rightarrow> c # cs))"

definition trim :: "string \<Rightarrow> string" where
  "trim s = rev (strip_spaces (map rev unicode_spaces) (rev (strip_spaces unicode_spaces s)))"

section \<open>Regular expressions\<close>

text \<open>
  The three patterns of the program, \<open>/\bINC\d+\b/i\<close>, \<open>/\b(install|setup|set up)\b/i\<close>
  and \<open>/\bq[1-4]\b/\<close>, are built from literal characters, \<open>\d\<close>, a character range,
  \<open>+\<close> on a single character, \<open>\b\<close>, sequence and alternation. The matcher is the
  backtracking one of the language: from a position (the character before it and the
  text after it) it lists the positions where a match of the expression can end, in
  the order in which backtracking tries them.
\<close>

datatype rx_atom = Lit char | Digit | Range char char

datatype rx = Eps | One rx_atom | Plus rx_atom | WordB | Seq rx rx | Alt rx rx

definition is_digit :: "char \<Rightarrow> bool" where
  "is_digit c = (let n = (of_char c :: nat) in 48 \<le> n \<and> n \<le> 57)"

text \<open>\<open>\w\<close>: an ASCII letter, a digit or the underscore.\<close>

definition is_word_char :: "char \<Rightarrow> bool" where
  "is_word_char c =
     (let n = (of_char c :: nat) in
        (65 \<le> n \<and> n \<le> 90) \<or> (97 \<le> n \<and> n \<le> 122) \<or> (48 \<le> n \<and> n \<le> 57) \<or> n = 95)"

text \<open>
  With the flag \<open>i\<close> two characters match when their canonical forms (the upper case)
  are equal; a character beyond ASCII never has an ASCII canonical form.
\<close>

definition atom_ok :: "bool \<Rightarrow> rx_atom \<Rightarrow> char \<Rightarrow> bool" where
  "atom_ok ic a c =
     (case a of
        Lit l \<Rightarrow> (if ic then upper_char c = upper_char l else c = l)
      | Digit \<Rightarrow> is_digit c
      | Range lo hi \<Rightarrow> (of_char lo :: nat) \<le> of_char c \<and> (of_char c :: nat) \<le> of_char hi)"

definition at_word_char :: "char option \<Rightarrow> bool" where
  "at_word_char p = (case p of None \<Rightarrow> False | Some c \<Rightarrow> is_word_char c)"

definition next_char :: "string \<Rightarrow> char option" where
  "next_char s = (case s of [] \<Rightarrow> None | c # cs \<Rightarrow> Some c)"

text \<open>\<open>a+\<close> is greedy: the longest run first, then each shorter one.\<close>

fun plus_run :: "bool \<Rightarrow> rx_atom \<Rightarrow> string \<Rightarrow> (char option \<times> string) list" where
  "plus_run ic a [] = []"
| "plus_run ic a (c # cs) = (if atom_ok ic a c then plus_run ic a cs @ [(Some c, cs)] else [])"

fun rx_run :: "bool \<Rightarrow> rx \<Rightarrow> char option \<times> string \<Rightarrow> (char option \<times> string) list" where
  "rx_run ic Eps st = [st]"
| "rx_run ic (One a) (p, s) =
     (case s of [] \<Rightarrow> [] | c # cs \<Rightarrow> if atom_ok ic a c then [(Some c, cs)] else [])"
| "rx_run ic (Plus a) (p, s) = plus_run ic a s"
| "rx_run ic WordB (p, s) =
     (if at_word_char p \<noteq> at_word_char (next_char s) then [(p, s)] else [])"
| "rx_run ic (Seq r1 r2) st = concat (map (rx_run ic r2) (rx_run ic r1 st))"
| "rx_run ic (Alt r1 r2) st = rx_run ic r1 st @ rx_run ic r2 st"

text \<open>
  \<open>RegExp.prototype.exec\<close> without the flag \<open>g\<close>: the match at the leftmost position
  that has one, and there the first end that backtracking finds. The result is the
  matched text (\<open>match[0]\<close>), or \<open>None\<close> for \<open>null\<close>.
\<close>

fun rx_search :: "bool \<Rightarrow> rx \<Rightarrow> char option \<Rightarrow> string \<Rightarrow> string option" where
  "rx_search ic r p [] =
     (case rx_run ic r (p, []) of [] \<Rightarrow> None | e # es \<Rightarrow> Some [])"
| "rx_search ic r p (c # cs) =
     (case rx_run ic r (p, c # cs) of
        [] \<Rightarrow> rx_search ic r (Some c) cs
      | e # es \<Rightarrow> Some (take (length (c # cs) - length (snd e)) (c # cs)))"

definition rx_exec :: "bool \<Rightarrow> rx \<Rightarrow> string \<Rightarrow> string option" where
  "rx_exec ic r s = rx_search ic r None s"

definition rx_test :: "bool \<Rightarrow> rx \<Rightarrow> string \<Rightarrow> bool" where
  "rx_test ic r s = (rx_exec ic r s \<noteq> None)"

fun rx_word :: "string \<Rightarrow> rx" where
  "rx_word [] = Eps"
| "rx_word (c # cs) = Seq (One (Lit c)) (rx_word cs)"

text \<open>The atoms of an expression: every character a match consumes satisfies one of them.\<close>

fun rx_atoms :: "rx \<Rightarrow> rx_atom list" where
  "rx_atoms Eps = []"
| "rx_atoms (One a) = [a]"
| "rx_atoms (Plus a) = [a]"
| "rx_atoms WordB = []"
| "rx_atoms (Seq r1 r2) = rx_atoms r1 @ rx_atoms r2"
| "rx_atoms (Alt r1 r2) = rx_atoms r1 @ rx_atoms r2"

text \<open>\<open>/\bINC\d+\b/i\<close>\<close>

definition incident_rx :: rx where
  "incident_rx = Seq WordB (Seq (rx_word ''INC'') (Seq (Plus Digit) WordB))"

text \<open>\<open>/\b(install|setup|set up)\b/i\<close>\<close>

definition install_rx :: rx where
  "install_rx =
     Seq WordB (Seq (Alt (rx_word ''install'') (Alt (rx_word ''setup'') (rx_word ''set up''))) WordB)"

text \<open>\<open>/\bq[1-4]\b/\<close>\<close>

definition quarter_rx :: rx where
  "quarter_rx = Seq WordB (Seq (One (Lit CHR ''q'')) (Seq (One (Range CHR ''1'' CHR ''4'')) WordB))"

section \<open>The chart heuristic\<close>

text \<open>
  \<open>checkForChartRequest\<close> of the client-side variant (the IT and business assistant):
  \<open>null\<close> is \<open>None\<close>.
\<close>

definition checkForChartRequest_client :: "js_env \<Rightarrow> string \<Rightarrow> string option" where
  "checkForChartRequest_client env query =
     (let lowerQuery = toLowerCase env query in
      if js_includes lowerQuery ''sales'' \<or> js_includes lowerQuery ''revenue'' then
        if js_includes lowerQuery ''month'' \<or> js_includes lowerQuery ''monthly'' then Some ''monthly''
        else if js_includes lowerQuery ''product'' \<or> js_includes lowerQuery ''item'' then Some ''products''
        else if js_includes lowerQuery ''quarter'' \<or> js_includes lowerQuery ''q1''
                \<or> js_includes lowerQuery ''q2'' \<or> js_includes lowerQuery ''q3''
                \<or> js_includes lowerQuery ''q4'' then Some ''quarterly''
        else if js_includes lowerQuery ''chart'' \<or> js_includes lowerQuery ''graph''
                \<or> js_includes lowerQuery ''visual'' then Some ''monthly''
        else None
      else None)"

text \<open>
  \<open>checkForChartRequest\<close> of the backend-driven variant (the sales insights
  assistant), which tests the quarter with \<open>/\bq[1-4]\b/\<close>.
\<close>

definition checkForChartRequest_remote :: "js_env \<Rightarrow> string \<Rightarrow> string option" where
  "checkForChartRequest_remote env query =
     (let lower = toLowerCase env query in
      if js_includes lower ''sales'' \<or> js_includes lower ''revenue'' then
        if js_includes lower ''month'' \<or> js_includes lower ''monthly'' then Some ''monthly''
        else if js_includes lower ''product'' \<or> js_includes lower ''item'' then Some ''products''
        else if js_includes lower ''quarter'' \<or> rx_test False quarter_rx lower then Some ''quarterly''
        else if js_includes lower ''chart'' \<or> js_includes lower ''graph''
                \<or> js_includes lower ''visual'' then Some ''monthly''
        else None
      else None)"

section \<open>The backend collaborators\<close>

text \<open>
  Every collaborator is one HTTP request made with axios. The transport is a parameter:
  it answers a request with the response's \<open>data\<close>, or rejects with an error value.
  An API function is modelled by the request it makes; the dispatch hands the request
  to the transport and returns, with its results, the list of requests it issued.
\<close>

datatype http_request = HttpGet string | HttpPost string jsval

type_synonym transport = "http_request \<Rightarrow> failure + jsval"

text \<open>The API module of the client-side variant.\<close>

definition BASE :: string where
  "BASE = ''http://127.0.0.1:8000''"

definition requestInstall :: "string \<Rightarrow> jsval \<Rightarrow> http_request" where
  "requestInstall user_query chosen_version =
     HttpPost (BASE @ ''/request_install'')
       (JObj [(''user_query'', JStr user_query),
              (''chosen_version'', if chosen_version = JUndefined then JNull else chosen_version)])"

definition createTicket :: "string \<Rightarrow> http_request" where
  "createTicket user_query =
     HttpPost (BASE @ ''/create_ticket'')
       (JObj [(''short_description'', JStr user_query), (''description'', JStr user_query),
              (''impact'', JStr ''2''), (''category'', JStr ''Software'')])"

definition showStatus :: "string \<Rightarrow> http_request" where
  "showStatus incidentId = HttpGet (BASE @ ''/show_status/'' @ incidentId)"

section \<open>The client-side variant: state and dispatch\<close>

datatype chat_role = System | User | Assistant

record chat_turn =
  role :: chat_role
  content :: jsval

text \<open>The pending confirmation, \<open>{user_query, options}\<close>; \<open>null\<close> is \<open>None\<close>.\<close>

record pending_install =
  user_query :: string
  options :: "jsval list"

text \<open>
  The component state of the client-side variant (\<open>useState\<close>), and what the key
  \<open>chat_history_v1\<close> of the local storage holds (the turns whose JSON text is stored).
\<close>

record client_state =
  messages_c :: "chat_turn list"
  input_c :: string
  pending :: "pending_install option"
  thinking_c :: bool
  showChart_c :: "string option"
  stored_c :: "chat_turn list"

definition SYSTEM_RULES_client :: string where
  "SYSTEM_RULES_client =
     ''Title: Conversational Sales Insights with Northwind DB.\<newline>\<newline>Rules:\<newline>'' @
     ''- If the user asks to 'install' or' 'setup' software, ALWAYS call request_install first.\<newline>'' @
     ''- If that returns multiple versions, show them and wait for the user's choice.\<newline>'' @
     ''- If exactly one match, proceed (backend may create the ticket).\<newline>'' @
     ''- If no match, backend creates a ticket automatically.\<newline>'' @
     ''- If the user asks about an incident (INC...), call show_status.\<newline>'' @
     ''- If the user asks about sales data, business metrics, or requests a chart, show the appropriate visualization.\<newline>''"

text \<open>\<open>e?.response?.data || e.message\<close>, the detail every \<open>catch\<close> of this variant prints.\<close>

definition error_detail :: "failure \<Rightarrow> jsval" where
  "error_detail e = js_or (opt_prop (err_response e) ''data'') (err_message e)"

text \<open>
  \<open>decideAndCallTool\<close>: the reply, the state after the setter calls, and the requests
  issued. The chart check comes first; then the incident pattern; then the install
  pattern; then the generic ticket.
\<close>

definition decideAndCallTool_client ::
    "js_env \<Rightarrow> transport \<Rightarrow> string \<Rightarrow> client_state \<Rightarrow> jsval \<times> client_state \<times> http_request list" where
  "decideAndCallTool_client env net query st =
     (case checkForChartRequest_client env query of
        Some chartType \<Rightarrow>
          (JStr (''Here's the '' @ chartType @ '' sales data you requested:''),
           st\<lparr>showChart_c := Some chartType\<rparr>, [])
      | None \<Rightarrow>
          (let st1 = st\<lparr>showChart_c := None\<rparr> in
           case rx_exec True incident_rx query of
             Some incMatch \<Rightarrow>
               (let inc = toUpperCase incMatch; req = showStatus inc in
                case net req of
                  Inl e \<Rightarrow>
                    (JStr (''Error while checking status: '' @ ToString env (error_detail e)), st1, [req])
                | Inr data \<Rightarrow>
                    (let st2 = st1\<lparr>pending := None\<rparr> in
                     case get_prop env data ''incident_status'' of
                       Inl e \<Rightarrow>
                         (JStr (''Error while checking status: '' @ ToString env (error_detail e)),
                          st2, [req])
                     | Inr status \<Rightarrow>
                         (JStr (''Incident '' @ inc @ '' status: ''
                                @ ToString env (js_coalesce status (JStr ''Unknown''))),
                          st2, [req])))
           | None \<Rightarrow>
               if rx_test True install_rx query then
                 (let req = requestInstall query JNull in
                  case net req of
                    Inl e \<Rightarrow>
                      (JStr (''Error while searching software: '' @ ToString env (error_detail e)),
                       st1\<lparr>pending := None\<rparr>, [req])
                  | Inr data \<Rightarrow>
                      if truthy data \<and> typeof_object data \<and> truthy (js_prop data ''incident'') then
                        (JSON_stringify env data 2, st1\<lparr>pending := None\<rparr>, [req])
                      else if isArray (opt_prop data ''options'')
                              \<and> 1 < length (elems (opt_prop data ''options'')) then
                        (js_or (js_prop data ''message'')
                           (JStr ''Multiple versions found. Please choose one.''),
                         st1\<lparr>pending :=
                               Some \<lparr>user_query = query, options = elems (opt_prop data ''options'')\<rparr>\<rparr>,
                         [req])
                      else (JSON_stringify env data 2, st1\<lparr>pending := None\<rparr>, [req]))
               else
                 (let req = createTicket query in
                  case net req of
                    Inl e \<Rightarrow>
                      (JStr (''Error while creating ticket: '' @ ToString env (error_detail e)),
                       st1\<lparr>pending := None\<rparr>, [req])
                  | Inr data \<Rightarrow>
                      (let st2 = st1\<lparr>pending := None\<rparr> in
                       case get_prop env data ''incident'' of
                         Inl e \<Rightarrow>
                           (JStr (''Error while creating ticket: '' @ ToString env (error_detail e)),
                            st2, [req])
                       | Inr incident \<Rightarrow>
                           (JStr (''Ticket '' @ ToString env incident @ '' created for: '' @ query),
                            st2, [req])))))"

section \<open>The client-side variant: event handlers\<close>

definition user_turn :: "jsval \<Rightarrow> chat_turn" where
  "user_turn c = \<lparr>role = User, content = c\<rparr>"

definition assistant_turn :: "jsval \<Rightarrow> chat_turn" where
  "assistant_turn c = \<lparr>role = Assistant, content = c\<rparr>"

text \<open>The input's \<open>onChange\<close>: \<open>setInput(e.target.value)\<close>.\<close>

definition onChange_client :: "string \<Rightarrow> client_state \<Rightarrow> client_state" where
  "onChange_client v st = st\<lparr>input_c := v\<rparr>"

text \<open>
  \<open>handleSend\<close> up to its \<open>await\<close>: \<open>None\<close> when it returns at once, otherwise the
  trimmed text and the state with the user's turn appended, the input emptied and the
  thinking flag set. This variant tests the text only.
\<close>

definition handleSend_begin_client :: "client_state \<Rightarrow> (string \<times> client_state) option" where
  "handleSend_begin_client st =
     (let text = trim (input_c st) in
      if text = [] then None
      else Some (text,
             st\<lparr>messages_c := messages_c st @ [user_turn (JStr text)], input_c := [],
                thinking_c := True\<rparr>))"

text \<open>
  The whole of \<open>handleSend\<close>, run to its end. The effect on \<open>messages\<close> stores them
  under \<open>chat_history_v1\<close> after each change; the last one is kept.
\<close>

definition handleSend_client ::
    "js_env \<Rightarrow> transport \<Rightarrow> client_state \<Rightarrow> client_state \<times> http_request list" where
  "handleSend_client env net st =
     (case handleSend_begin_client st of
        None \<Rightarrow> (st, [])
      | Some (text, st1) \<Rightarrow>
          (case decideAndCallTool_client env net text st1 of
             (result, st2, calls) \<Rightarrow>
               (let st3 = st2\<lparr>thinking_c := False\<rparr>;
                    st4 = st3\<lparr>messages_c := messages_c st3 @ [assistant_turn result]\<rparr>
                in (st4\<lparr>stored_c := messages_c st4\<rparr>, calls))))"

text \<open>
  The input's \<open>onKeyDown\<close>, \<open>e.key === "Enter" && !e.shiftKey && handleSend()\<close>, and a
  click on the send button, which is disabled while \<open>thinking || input.trim() === ""\<close>.
\<close>

definition onKeyDown_client ::
    "js_env \<Rightarrow> transport \<Rightarrow> string \<Rightarrow> bool \<Rightarrow> client_state \<Rightarrow> client_state \<times> http_request list" where
  "onKeyDown_client env net key shiftKey st =
     (if key = ''Enter'' \<and> \<not> shiftKey then handleSend_client env net st else (st, []))"

definition onClickSend_client ::
    "js_env \<Rightarrow> transport \<Rightarrow> client_state \<Rightarrow> client_state \<times> http_request list" where
  "onClickSend_client env net st =
     (if thinking_c st \<or> trim (input_c st) = [] then (st, []) else handleSend_client env net st)"

text \<open>The marks of the two replies of \<open>confirmVersion\<close>, in UTF-8: U+2705, U+274C, U+2022.\<close>

definition check_mark :: string where
  "check_mark = [CHR 0xE2, CHR 0x9C, CHR 0x85]"

definition cross_mark :: string where
  "cross_mark = [CHR 0xE2, CHR 0x9D, CHR 0x8C]"

definition bullet :: string where
  "bullet = [CHR 0xE2, CHR 0x80, CHR 0xA2]"

text \<open>
  \<open>confirmVersion\<close>: nothing for a falsy choice; otherwise the install lookup with the
  pending query and the choice, a turn for its success or its failure, and in a
  \<open>finally\<close> the pending confirmation is set to \<open>null\<close>. Reading \<open>pending.user_query\<close>
  with no confirmation pending throws inside the \<open>try\<close>, before any request.
\<close>

definition confirmVersion ::
    "js_env \<Rightarrow> transport \<Rightarrow> jsval \<Rightarrow> client_state \<Rightarrow> client_state \<times> http_request list" where
  "confirmVersion env net choice st =
     (if \<not> truthy choice then (st, [])
      else
        (let (outcome, calls) =
               (case pending st of
                  None \<Rightarrow> (Inl (TypeError env JNull ''user_query''), [])
                | Some p \<Rightarrow>
                    (let req = requestInstall (user_query p) choice in (net req, [req])));
             turn =
               (case outcome of
                  Inr data \<Rightarrow>
                    assistant_turn (JStr (check_mark @ '' ''
                      @ ToString env (js_or (opt_prop data ''message'') (JStr ''Ticket created''))
                      @ '' '' @ bullet @ '' Incident: ''
                      @ ToString env (js_or (opt_prop data ''incident'') (JStr ''N/A''))))
                | Inl e \<Rightarrow>
                    assistant_turn (JStr (cross_mark @ '' Failed: '' @ ToString env (error_detail e))));
             st1 = st\<lparr>messages_c := messages_c st @ [turn]\<rparr>;
             st2 = st1\<lparr>pending := None\<rparr>
         in (st2\<lparr>stored_c := messages_c st2\<rparr>, calls)))"

definition clearSession_client :: "client_state \<Rightarrow> client_state" where
  "clearSession_client st =
     (let fresh =
            [\<lparr>role = System, content = JStr SYSTEM_RULES_client\<rparr>,
             \<lparr>role = Assistant,
              content = JStr ''Hi! I'm your IT assistant. How can I help you today?''\<rparr>]
      in st\<lparr>messages_c := fresh, pending := None, showChart_c := None, stored_c := fresh\<rparr>)"

section \<open>The backend-driven variant: the API module\<close>

text \<open>The build-time settings \<open>import.meta.env.VITE_API_BASE\<close> and \<open>VITE_DISABLE_API\<close>.\<close>

record api_config =
  VITE_API_BASE :: jsval
  VITE_DISABLE_API :: jsval

definition BASE_remote :: "api_config \<Rightarrow> jsval" where
  "BASE_remote cfg = js_or (VITE_API_BASE cfg) (JStr ''http://127.0.0.1:8000'')"

definition DISABLE :: "api_config \<Rightarrow> bool" where
  "DISABLE cfg = (VITE_DISABLE_API cfg = JStr ''1'')"

text \<open>\<open>String(err)\<close> of an error object: \<open>Error.prototype.toString\<close>.\<close>

definition error_to_string :: "js_env \<Rightarrow> failure \<Rightarrow> string" where
  "error_to_string env e =
     (let msg = (if err_message e = JUndefined then [] else ToString env (err_message e)) in
      if err_name e = [] then msg
      else if msg = [] then err_name e
      else err_name e @ '': '' @ msg)"

text \<open>\<open>new Error(x)\<close>: the message is the string of \<open>x\<close>, and empty when \<open>x\<close> is \<open>undefined\<close>.\<close>

definition new_Error :: "js_env \<Rightarrow> jsval \<Rightarrow> failure" where
  "new_Error env x =
     \<lparr>err_name = ''Error'',
      err_message = JStr (if x = JUndefined then [] else ToString env x),
      err_response = JUndefined\<rparr>"

text \<open>
  \<open>errorToText\<close>. Its first test, \<open>!err\<close>, is never true of an error object. The
  detail is \<open>d?.detail?.error ?? d?.detail ?? d\<close>.
\<close>

definition errorToText :: "js_env \<Rightarrow> failure \<Rightarrow> jsval" where
  "errorToText env err =
     (if truthy (err_response err) then
        (let d = js_prop (err_response err) ''data'';
             detail = js_coalesce (js_coalesce (opt_prop (opt_prop d ''detail'') ''error'')
                                     (opt_prop d ''detail'')) d
         in if typeof_string detail then detail else JSON_stringify env detail 0)
      else js_or (err_message err) (JStr (error_to_string env err)))"

text \<open>The sample payload of the mock mode; its summary starts with U+26A0 U+FE0F.\<close>

definition mock_payload :: jsval where
  "mock_payload =
     JObj [(''summary'',
              JStr ([CHR 0xE2, CHR 0x9A, CHR 0xA0, CHR 0xEF, CHR 0xB8, CHR 0x8F]
                    @ '' API disabled (mock). Showing sample results.'')),
           (''data'', JArr [JObj [(''CompanyName'', JStr ''Sample Co A'')],
                            JObj [(''CompanyName'', JStr ''Sample Co B'')]]),
           (''chart'', JObj [(''type'', JStr ''bar''),
                             (''labels'', JArr [JStr ''Sample Co A'', JStr ''Sample Co B'']),
                             (''values'', JArr [JNum (Fin 1), JNum (Fin 1)]),
                             (''title'', JStr ''Mock Chart'')]),
           (''sql'', JStr ''/* mock */''),
           (''forecast'', JNull)]"

text \<open>
  \<open>queryChatbot\<close>: the mock payload without a request when the API is disabled;
  otherwise one POST, whose rejection is thrown again as \<open>new Error(errorToText(err))\<close>.
\<close>

definition queryChatbot ::
    "js_env \<Rightarrow> api_config \<Rightarrow> transport \<Rightarrow> string \<Rightarrow> string \<Rightarrow> (failure + jsval) \<times> http_request list" where
  "queryChatbot env cfg net prompt chartType =
     (if DISABLE cfg then (Inr mock_payload, [])
      else
        (let req = HttpPost (ToString env (BASE_remote cfg) @ ''/chatbot/query'')
                     (JObj [(''prompt'', JStr prompt), (''chart_type'', JStr chartType)]) in
         case net req of
           Inr data \<Rightarrow> (Inr data, [req])
         | Inl err \<Rightarrow> (Inl (new_Error env (errorToText env err)), [req])))"

section \<open>The backend-driven variant: state, dispatch and handlers\<close>

record remote_state =
  messages :: "chat_turn list"
  input :: string
  thinking :: bool
  showChart :: "string option"
  lastPayload :: jsval
  errorMsg :: jsval
  stored :: "chat_turn list"

definition SYSTEM_RULES_remote :: string where
  "SYSTEM_RULES_remote =
     ''Title: Conversational Sales Insights with Northwind DB.\<newline>\<newline>Rules:\<newline>'' @
     ''- If the user asks about sales data, business metrics, or requests a chart, call the /chatbot/query API.\<newline>'' @
     ''- Prefer showing a relevant visualization when the user mentions month/quarter/product.\<newline>''"

text \<open>\<open>a && b\<close> on values.\<close>

definition js_and :: "jsval \<Rightarrow> jsval \<Rightarrow> jsval" where
  "js_and a b = (if truthy a then b else a)"

text \<open>\<open>["monthly", "products", "quarterly"].includes(v)\<close>, with the string it found.\<close>

definition static_chart_type :: "jsval \<Rightarrow> string option" where
  "static_chart_type v =
     (case v of
        JStr s \<Rightarrow> if s \<in> set [''monthly'', ''products'', ''quarterly''] then Some s else None
      | _ \<Rightarrow> None)"

text \<open>
  \<open>decideAndCallTool\<close> of this variant: every utterance goes to the chatbot endpoint,
  with the chart type the heuristic infers (or \<open>auto\<close>).
\<close>

definition decideAndCallTool_remote ::
    "js_env \<Rightarrow> api_config \<Rightarrow> transport \<Rightarrow> string \<Rightarrow> remote_state
       \<Rightarrow> jsval \<times> remote_state \<times> http_request list" where
  "decideAndCallTool_remote env cfg net query st =
     (let st0 = st\<lparr>errorMsg := JStr []\<rparr>;
          inferredChart = checkForChartRequest_remote env query in
      case queryChatbot env cfg net query (case inferredChart of Some c \<Rightarrow> c | None \<Rightarrow> ''auto'') of
        (Inr data, calls) \<Rightarrow>
          (let st1 = st0\<lparr>lastPayload := js_coalesce data JNull\<rparr>;
               answer = js_or (js_and data (js_or (js_prop data ''summary'') (js_prop data ''answer'')))
                          (JStr ''Here are your sales insights.'');
               backendChartType = opt_prop data ''chart_type'';
               st2 = (case static_chart_type backendChartType of
                        Some t \<Rightarrow> st1\<lparr>showChart := Some t\<rparr>
                      | None \<Rightarrow>
                          if truthy (opt_prop data ''chart'') then st1\<lparr>showChart := None\<rparr>
                          else st1\<lparr>showChart := inferredChart\<rparr>)
           in (answer, st2, calls))
      | (Inl e, calls) \<Rightarrow>
          (let msg = js_or (err_message e) (JStr ''Unknown error'') in
           (JStr (''Chatbot error: '' @ ToString env msg),
            st0\<lparr>lastPayload := JNull, showChart := None, errorMsg := msg\<rparr>, calls)))"

text \<open>\<open>handleSend\<close> of this variant returns at once when the text is empty or a dispatch is in flight.\<close>

definition handleSend_begin_remote :: "remote_state \<Rightarrow> (string \<times> remote_state) option" where
  "handleSend_begin_remote st =
     (let text = trim (input st) in
      if text = [] \<or> thinking st then None
      else Some (text,
             st\<lparr>messages := messages st @ [user_turn (JStr text)], input := [], thinking := True\<rparr>))"

definition handleSend_remote ::
    "js_env \<Rightarrow> api_config \<Rightarrow> transport \<Rightarrow> remote_state \<Rightarrow> remote_state \<times> http_request list" where
  "handleSend_remote env cfg net st =
     (case handleSend_begin_remote st of
        None \<Rightarrow> (st, [])
      | Some (text, st1) \<Rightarrow>
          (case decideAndCallTool_remote env cfg net text st1 of
             (result, st2, calls) \<Rightarrow>
               (let st3 = st2\<lparr>thinking := False\<rparr>;
                    st4 = st3\<lparr>messages := messages st3 @ [assistant_turn result]\<rparr>
                in (st4\<lparr>stored := messages st4\<rparr>, calls))))"

definition onKeyDown_remote ::
    "js_env \<Rightarrow> api_config \<Rightarrow> transport \<Rightarrow> string \<Rightarrow> bool \<Rightarrow> remote_state
       \<Rightarrow> remote_state \<times> http_request list" where
  "onKeyDown_remote env cfg net key shiftKey st =
     (if key = ''Enter'' \<and> \<not> shiftKey then handleSend_remote env cfg net st else (st, []))"

definition onClickSend_remote ::
    "js_env \<Rightarrow> api_config \<Rightarrow> transport \<Rightarrow> remote_state \<Rightarrow> remote_state \<times> http_request list" where
  "onClickSend_remote env cfg net st =
     (if thinking st \<or> trim (input st) = [] then (st, []) else handleSend_remote env cfg net st)"

text \<open>The greeting of this variant writes its apostrophe as U+2019.\<close>

definition clearSession_remote :: "remote_state \<Rightarrow> remote_state" where
  "clearSession_remote st =
     (let fresh =
            [\<lparr>role = System, content = JStr SYSTEM_RULES_remote\<rparr>,
             \<lparr>role = Assistant,
              content = JStr (''Hi! I'' @ [CHR 0xE2, CHR 0x80, CHR 0x99]
                @ ''m your Sales Insights assistant. Ask me about sales, revenue, products, or trends.'')\<rparr>]
      in st\<lparr>messages := fresh, showChart := None, lastPayload := JNull, errorMsg := JStr [],
            stored := fresh\<rparr>)"



section \<open>The chart normalizer\<close>

record chart_dataset =
  ds_label :: string
  ds_data :: "jsnum list"
  ds_borderWidth :: nat

text \<open>
  The options: \<open>scales_y\<close> holds \<open>beginAtZero\<close> and the precision of the ticks, and is
  present for the types \<open>bar\<close> and \<open>line\<close> only.
\<close>

record chart_options =
  responsive :: bool
  legend_position :: string
  title_display :: bool
  title_text :: jsval
  scales_y :: "(bool \<times> nat) option"

record chartjs_spec =
  cj_type :: string
  cj_labels :: "jsval list"
  cj_datasets :: "chart_dataset list"
  cj_options :: chart_options

text \<open>\<open>typeof v === "number" ? v : Number(v)\<close>\<close>

definition coerce_number :: "js_env \<Rightarrow> jsval \<Rightarrow> jsnum" where
  "coerce_number env v = (case v of JNum n \<Rightarrow> n | _ \<Rightarrow> ToNumber env v)"

text \<open>
  \<open>buildChartJsSpec\<close>. The call \<open>(spec?.type || "bar").toLowerCase()\<close> throws a
  \<open>TypeError\<close> when the type is truthy and not a string: such a value has no method
  \<open>toLowerCase\<close>.
\<close>

definition buildChartJsSpec :: "js_env \<Rightarrow> jsval \<Rightarrow> failure + chartjs_spec" where
  "buildChartJsSpec env spec =
     (case js_or (opt_prop spec ''type'') (JStr ''bar'') of
        JStr t \<Rightarrow>
          (let type = toLowerCase env t;
               labels = (if isArray (opt_prop spec ''labels'') then elems (js_prop spec ''labels'') else []);
               rawValues = (if isArray (opt_prop spec ''values'') then elems (js_prop spec ''values'') else []);
               numeric = map (coerce_number env) rawValues;
               allNums = list_all isFinite numeric;
               dataValues = (if allNums then numeric else map (\<lambda>l. Fin 1) labels)
           in Inr \<lparr>cj_type = type, cj_labels = labels,
                   cj_datasets =
                     [\<lparr>ds_label = (if allNums then ''Value'' else ''Count''), ds_data = dataValues,
                       ds_borderWidth = 1\<rparr>],
                   cj_options =
                     \<lparr>responsive = True, legend_position = ''top'',
                      title_display = truthy (opt_prop spec ''title''),
                      title_text = js_or (opt_prop spec ''title'') (JStr []),
                      scales_y = (if type = ''bar'' \<or> type = ''line'' then Some (True, 0) else None)\<rparr>\<rparr>)
      | v \<Rightarrow> Inl (TypeError env v ''toLowerCase''))"

datatype chart_component = Pie | Line | Bar

text \<open>\<open>GenericChart\<close>: nothing for a falsy spec; otherwise the component for the type.\<close>

definition GenericChart :: "js_env \<Rightarrow> jsval \<Rightarrow> failure + (chart_component \<times> chartjs_spec) option" where
  "GenericChart env spec =
     (if \<not> truthy spec then Inr None
      else (case buildChartJsSpec env spec of
              Inl e \<Rightarrow> Inl e
            | Inr c \<Rightarrow>
                Inr (Some (if cj_type c = ''pie'' then Pie
                           else if cj_type c = ''line'' then Line else Bar, c))))"

section \<open>Sample runtime, transports and states\<close>

text \<open>
  Concrete inputs on which the model is evaluated. The sample runtime parses a string
  of decimal digits as its number and every other string as \<open>NaN\<close>, prints an integer
  in decimal (any other number as a fraction), lets \<open>[JSON]\<close> stand for every JSON text,
  words the \<open>TypeError\<close> after the V8 engine, and lowers the ASCII letters, the letters
  U+00C0 to U+00DE, U+0130 and U+212A, leaving every other character. It agrees with the
  language on the strings the examples below convert.
\<close>

fun sample_lower :: "string \<Rightarrow> string" where
  "sample_lower [] = []"
| "sample_lower (c # cs) =
     (if startsWith (c # cs) [CHR 0xE2, CHR 0x84, CHR 0xAA] then CHR ''k'' # sample_lower (drop 2 cs)
      else if startsWith (c # cs) [CHR 0xC4, CHR 0xB0]
        then CHR ''i'' # CHR 0xCC # CHR 0x87 # sample_lower (drop 1 cs)
      else if c = CHR 0xC3 \<and> cs \<noteq> [] \<and> (0x80 :: nat) \<le> of_char (hd cs)
              \<and> of_char (hd cs) \<le> (0x9E :: nat) \<and> hd cs \<noteq> CHR 0x97
        then c # char_of (of_char (hd cs) + 32 :: nat) # sample_lower (drop 1 cs)
      else lower_char c # sample_lower cs)"

fun digits_of :: "nat \<Rightarrow> string" where
  "digits_of n =
     (if n < 10 then [char_of (48 + n)] else digits_of (n div 10) @ [char_of (48 + n mod 10)])"

definition sample_env :: js_env where
  "sample_env =
     \<lparr>StringToNumber =
        (\<lambda>s. if s \<noteq> [] \<and> list_all is_digit s
             then Fin (of_nat (foldl (\<lambda>a c. 10 * a + (of_char c - 48)) 0 s)) else NaN),
      FiniteToString =
        (\<lambda>r. case quotient_of r of
               (n, d) \<Rightarrow> (if n < 0 then ''-'' else []) @ digits_of (nat \<bar>n\<bar>)
                          @ (if d = 1 then [] else ''/'' @ digits_of (nat d))),
      JSON_stringify = (\<lambda>v n. if v = JUndefined then JUndefined else JStr ''[JSON]''),
      TypeError_message =
        (\<lambda>v k. if nullish v
               then ''Cannot read properties of '' @ (if v = JNull then ''null'' else ''undefined'')
                    @ '' (reading '' @ k @ '')''
               else k @ '' is not a function''),
      UnicodeToLowerCase = sample_lower\<rparr>"

text \<open>A transport that answers every request with one payload, and one that rejects.\<close>

definition answer_with :: "jsval \<Rightarrow> transport" where
  "answer_with v = (\<lambda>req. Inr v)"

definition reject_with :: "failure \<Rightarrow> transport" where
  "reject_with e = (\<lambda>req. Inl e)"

definition network_error :: failure where
  "network_error =
     \<lparr>err_name = ''AxiosError'', err_message = JStr ''Network Error'', err_response = JUndefined\<rparr>"

definition idle_client :: client_state where
  "idle_client =
     \<lparr>messages_c = [], input_c = [], pending = None, thinking_c = False, showChart_c = None,
      stored_c = []\<rparr>"

text \<open>A state with a confirmation pending, and one with a dispatch in flight.\<close>

definition awaiting_client :: client_state where
  "awaiting_client =
     idle_client\<lparr>pending :=
       Some \<lparr>user_query = ''install vscode'', options = [JStr ''1.85'', JStr ''1.86'']\<rparr>\<rparr>"

definition busy_client :: client_state where
  "busy_client =
     idle_client\<lparr>messages_c := [user_turn (JStr ''install vscode'')], input_c := ''hello'',
                 thinking_c := True\<rparr>"

text \<open>
  The state with a dispatch in flight is reached from the idle one: \<open>install vscode\<close>
  is typed and sent, and \<open>hello\<close> is typed before the backend has answered.
\<close>

definition typed_while_waiting :: "client_state option" where
  "typed_while_waiting =
     map_option (\<lambda>(text, st). onChange_client ''hello'' st)
       (handleSend_begin_client (onChange_client ''install vscode'' idle_client))"



section \<open>Properties of the matcher\<close>

text \<open>
  A match consumes only characters that satisfy an atom of the expression, so the text
  matched by the incident pattern is made of ASCII letters and digits.
\<close>

lemma plus_run_consumes:
  "(p', rest) \<in> set (plus_run ic a s) \<Longrightarrow> \<exists>u. s = u @ rest \<and> list_all (atom_ok ic a) u"
proof (induction s)
  case Nil
  then show ?case by simp
next
  case (Cons c cs)
  show ?case
  proof (cases "atom_ok ic a c")
    case False
    with Cons.prems show ?thesis by simp
  next
    case True
    with Cons.prems have "(p', rest) \<in> set (plus_run ic a cs) \<or> rest = cs" by auto
    then show ?thesis
    proof
      assume "(p', rest) \<in> set (plus_run ic a cs)"
      from Cons.IH [OF this] obtain u where "cs = u @ rest" "list_all (atom_ok ic a) u" by blast
      with True have "c # cs = (c # u) @ rest \<and> list_all (atom_ok ic a) (c # u)" by simp
      then show ?thesis by blast
    next
      assume "rest = cs"
      with True have "c # cs = [c] @ rest \<and> list_all (atom_ok ic a) [c]" by simp
      then show ?thesis by blast
    qed
  qed
qed

lemma rx_run_consumes:
  "(p', rest) \<in> set (rx_run ic r (p, s))
   \<Longrightarrow> \<exists>u. s = u @ rest \<and> list_all (\<lambda>c. list_ex (\<lambda>a. atom_ok ic a c) (rx_atoms r)) u"
proof (induction r arbitrary: p s p' rest)
  case Eps
  then show ?case by simp
next
  case (One a)
  then show ?case by (cases s) (auto split: if_splits)
next
  case (Plus a)
  then have "(p', rest) \<in> set (plus_run ic a s)" by simp
  from plus_run_consumes [OF this] show ?case by (auto simp: list_all_iff)
next
  case WordB
  then show ?case by (auto split: if_splits)
next
  case (Seq r1 r2)
  from Seq.prems obtain q mid where m: "(q, mid) \<in> set (rx_run ic r1 (p, s))"
    and e: "(p', rest) \<in> set (rx_run ic r2 (q, mid))" by auto
  from Seq.IH(1) [OF m] obtain u where u: "s = u @ mid"
    "list_all (\<lambda>c. list_ex (\<lambda>a. atom_ok ic a c) (rx_atoms r1)) u" by blast
  from Seq.IH(2) [OF e] obtain v where v: "mid = v @ rest"
    "list_all (\<lambda>c. list_ex (\<lambda>a. atom_ok ic a c) (rx_atoms r2)) v" by blast
  from u v have "s = (u @ v) @ rest
      \<and> list_all (\<lambda>c. list_ex (\<lambda>a. atom_ok ic a c) (rx_atoms (Seq r1 r2))) (u @ v)"
    by (auto simp: list_all_iff list_ex_iff)
  then show ?case by blast
next
  case (Alt r1 r2)
  from Alt.prems have "(p', rest) \<in> set (rx_run ic r1 (p, s)) \<or> (p', rest) \<in> set (rx_run ic r2 (p, s))"
    by auto
  then show ?case
  proof
    assume "(p', rest) \<in> set (rx_run ic r1 (p, s))"
    from Alt.IH(1) [OF this] show ?thesis by (fastforce simp: list_all_iff list_ex_iff)
  next
    assume "(p', rest) \<in> set (rx_run ic r2 (p, s))"
    from Alt.IH(2) [OF this] show ?thesis by (fastforce simp: list_all_iff list_ex_iff)
  qed
qed

lemma rx_search_consumes:
  "rx_search ic r p s = Some m
   \<Longrightarrow> list_all (\<lambda>c. list_ex (\<lambda>a. atom_ok ic a c) (rx_atoms r)) m"
proof (induction s arbitrary: p)
  case Nil
  then show ?case by (auto split: list.splits)
next
  case (Cons c cs)
  show ?case
  proof (cases "rx_run ic r (p, c # cs)")
    case Nil
    with Cons.prems have "rx_search ic r (Some c) cs = Some m" by simp
    from Cons.IH [OF this] show ?thesis .
  next
    case (Cons e es)
    obtain p' rest where e: "e = (p', rest)" by (cases e)
    with Cons have "(p', rest) \<in> set (rx_run ic r (p, c # cs))" by simp
    from rx_run_consumes [OF this] obtain u where u: "c # cs = u @ rest"
      "list_all (\<lambda>c. list_ex (\<lambda>a. atom_ok ic a c) (rx_atoms r)) u" by blast
    from u(1) have "length (c # cs) - length rest = length u"
      by (metis add_diff_cancel_right' length_append)
    with u(1) have "take (length (c # cs) - length rest) (c # cs) = u" by simp
    with Cons.prems Cons e u(2) show ?thesis by simp
  qed
qed

lemma upper_char_ascii: "is_ascii (upper_char c) \<Longrightarrow> is_ascii c"
  by (auto simp: upper_char_def is_ascii_def Let_def split: if_splits)

lemma incident_atom_ascii:
  assumes "list_ex (\<lambda>a. atom_ok True a c) (rx_atoms incident_rx)"
  shows "is_ascii c"
proof -
  have u: "is_ascii (upper_char CHR ''I'')" "is_ascii (upper_char CHR ''N'')"
    "is_ascii (upper_char CHR ''C'')" by code_simp+
  have d: "is_digit c \<Longrightarrow> is_ascii c" by (simp add: is_digit_def is_ascii_def Let_def)
  from assms have "upper_char c = upper_char CHR ''I'' \<or> upper_char c = upper_char CHR ''N''
      \<or> upper_char c = upper_char CHR ''C'' \<or> is_digit c"
    by (simp add: incident_rx_def atom_ok_def)
  with u d show ?thesis by (metis upper_char_ascii)
qed

lemma incident_match_ascii:
  assumes "rx_exec True incident_rx query = Some m"
  shows "list_all is_ascii m"
proof -
  from assms have "rx_search True incident_rx None query = Some m" by (simp add: rx_exec_def)
  from rx_search_consumes [OF this]
  show ?thesis by (auto simp: list_all_iff dest: incident_atom_ascii)
qed

section \<open>Properties of the client-side dispatch\<close>

lemma decideAndCallTool_client_messages:
  "messages_c (fst (snd (decideAndCallTool_client env net query st))) = messages_c st"
  unfolding decideAndCallTool_client_def
  by (simp add: Let_def split: option.splits sum.splits)

lemma decideAndCallTool_client_no_call_iff:
  "(snd (snd (decideAndCallTool_client env net query st)) = [])
     = (checkForChartRequest_client env query \<noteq> None)"
  unfolding decideAndCallTool_client_def
  by (simp add: Let_def split: option.splits sum.splits)

text \<open>
  The heuristic matches exactly the utterances that hold \<open>sales\<close> or \<open>revenue\<close> and one
  of the cues, in any case.
\<close>

lemma checkForChartRequest_client_matches_iff:
  "(checkForChartRequest_client env query \<noteq> None)
     = (let l = toLowerCase env query in
        (js_includes l ''sales'' \<or> js_includes l ''revenue'')
        \<and> list_ex (js_includes l)
             [''month'', ''monthly'', ''product'', ''item'', ''quarter'', ''q1'', ''q2'', ''q3'', ''q4'',
              ''chart'', ''graph'', ''visual''])"
  by (simp add: checkForChartRequest_client_def Let_def)

text \<open>
  C10. In the client-side variant, for every utterance the chart heuristic matches,
  the dispatch returns the locally built reply, issues no request to the backend and
  leaves the pending confirmation as it was; only the chart slot changes.
\<close>

theorem chart_request_is_local:
  assumes "checkForChartRequest_client env query = Some chartType"
  shows "decideAndCallTool_client env net query st
           = (JStr (''Here's the '' @ chartType @ '' sales data you requested:''),
              st\<lparr>showChart_c := Some chartType\<rparr>, [])
         \<and> snd (snd (decideAndCallTool_client env net query st)) = []
         \<and> pending (fst (snd (decideAndCallTool_client env net query st))) = pending st"
  using assms by (simp add: decideAndCallTool_client_def)

theorem chart_request_is_local_witness:
  "checkForChartRequest_client sample_env ''Show SALES by Quarter'' = Some ''quarterly''
   \<and> decideAndCallTool_client sample_env (reject_with network_error) ''Show SALES by Quarter''
        awaiting_client
       = (JStr ''Here's the quarterly sales data you requested:'',
          awaiting_client\<lparr>showChart_c := Some ''quarterly''\<rparr>, [])
   \<and> pending (fst (snd (decideAndCallTool_client sample_env (reject_with network_error)
        ''Show SALES by Quarter'' awaiting_client))) = pending awaiting_client"
proof -
  have h: "checkForChartRequest_client sample_env ''Show SALES by Quarter'' = Some ''quarterly''"
    by code_simp
  from chart_request_is_local [OF h] h show ?thesis by simp
qed

text \<open>
  C1, as amended. The chart check runs before the incident pattern, so an utterance
  that holds an incident token is dispatched as an incident status query when the chart
  heuristic does not match it, whatever else it holds (install keywords included): the
  one request issued is the status lookup of the upper-cased token, and the reply is
  the status line or the status error line.
\<close>

theorem incident_dispatch_unless_chart:
  assumes "rx_exec True incident_rx query = Some m"
    and "checkForChartRequest_client env query = None"
  shows "snd (snd (decideAndCallTool_client env net query st)) = [showStatus (toUpperCase m)]
         \<and> (\<exists>t. fst (decideAndCallTool_client env net query st)
                    = JStr (''Incident '' @ toUpperCase m @ '' status: '' @ t)
                \<or> fst (decideAndCallTool_client env net query st)
                    = JStr (''Error while checking status: '' @ t))"
  using assms unfolding decideAndCallTool_client_def
  by (auto simp: Let_def split: sum.splits)

theorem incident_dispatch_unless_chart_witness:
  "rx_exec True incident_rx ''please install inc123 status'' = Some ''inc123''
   \<and> checkForChartRequest_client sample_env ''please install inc123 status'' = None
   \<and> rx_test True install_rx ''please install inc123 status''
   \<and> snd (snd (decideAndCallTool_client sample_env
          (answer_with (JObj [(''incident_status'', JStr ''Open'')]))
          ''please install inc123 status'' idle_client))
       = [HttpGet ''http://127.0.0.1:8000/show_status/INC123'']"
proof -
  have a: "rx_exec True incident_rx ''please install inc123 status'' = Some ''inc123''"
    by code_simp
  have b: "checkForChartRequest_client sample_env ''please install inc123 status'' = None"
    by code_simp
  have c: "rx_test True install_rx ''please install inc123 status''"
    by code_simp
  have d: "showStatus (toUpperCase ''inc123'') = HttpGet ''http://127.0.0.1:8000/show_status/INC123''"
    by code_simp
  from incident_dispatch_unless_chart [OF a b] a b c d show ?thesis by simp
qed

text \<open>
  C1 as stated fails: \<open>monthly sales for INC123\<close> holds the token \<open>INC123\<close>, yet the
  dispatch answers with the monthly chart and issues no status lookup.
\<close>

theorem incident_after_chart_counterexample:
  "rx_exec True incident_rx ''monthly sales for INC123'' = Some ''INC123''
   \<and> decideAndCallTool_client sample_env
        (answer_with (JObj [(''incident_status'', JStr ''Open'')]))
        ''monthly sales for INC123'' idle_client
       = (JStr ''Here's the monthly sales data you requested:'',
          idle_client\<lparr>showChart_c := Some ''monthly''\<rparr>, [])"
proof -
  have a: "rx_exec True incident_rx ''monthly sales for INC123'' = Some ''INC123''"
    by code_simp
  have b: "checkForChartRequest_client sample_env ''monthly sales for INC123'' = Some ''monthly''"
    by code_simp
  show ?thesis using a b by (simp add: decideAndCallTool_client_def)
qed

text \<open>
  C4. An install dispatch (no chart match, no incident token, an install keyword) whose
  response has no truthy \<open>incident\<close> and an \<open>options\<close> array of more than one element
  sets the pending confirmation to the dispatched query with those options in their
  order, and replies with the response's \<open>message\<close>, or with the generic sentence when
  the message is absent (falsy, as \<open>||\<close> reads it).
\<close>

theorem install_options_set_pending:
  assumes "checkForChartRequest_client env query = None"
    and "rx_exec True incident_rx query = None"
    and "rx_test True install_rx query"
    and "net (requestInstall query JNull) = Inr data"
    and "\<not> truthy (js_prop data ''incident'')"
    and "opt_prop data ''options'' = JArr opts"
    and "1 < length opts"
  shows "decideAndCallTool_client env net query st
           = (if truthy (js_prop data ''message'') then js_prop data ''message''
              else JStr ''Multiple versions found. Please choose one.'',
              st\<lparr>showChart_c := None, pending := Some \<lparr>user_query = query, options = opts\<rparr>\<rparr>,
              [requestInstall query JNull])"
  using assms unfolding decideAndCallTool_client_def
  by (simp add: Let_def isArray_def elems_def js_or_def)

theorem install_options_set_pending_witness:
  "checkForChartRequest_client sample_env ''install vscode'' = None
   \<and> rx_exec True incident_rx ''install vscode'' = None
   \<and> rx_test True install_rx ''install vscode''
   \<and> decideAndCallTool_client sample_env
        (answer_with (JObj [(''options'', JArr [JStr ''1.0'', JStr ''2.0'', JStr ''3.0'']),
                            (''message'', JStr ''Several versions of vscode exist.'')]))
        ''install vscode'' idle_client
       = (JStr ''Several versions of vscode exist.'',
          idle_client\<lparr>showChart_c := None,
            pending := Some \<lparr>user_query = ''install vscode'',
                             options = [JStr ''1.0'', JStr ''2.0'', JStr ''3.0'']\<rparr>\<rparr>,
          [requestInstall ''install vscode'' JNull])
   \<and> fst (decideAndCallTool_client sample_env
        (answer_with (JObj [(''options'', JArr [JStr ''1.0'', JStr ''2.0''])]))
        ''install vscode'' idle_client)
       = JStr ''Multiple versions found. Please choose one.''"
proof -
  let ?d1 = "JObj [(''options'', JArr [JStr ''1.0'', JStr ''2.0'', JStr ''3.0'']),
                   (''message'', JStr ''Several versions of vscode exist.'')]"
  let ?d2 = "JObj [(''options'', JArr [JStr ''1.0'', JStr ''2.0''])]"
  have a: "checkForChartRequest_client sample_env ''install vscode'' = None" by code_simp
  have b: "rx_exec True incident_rx ''install vscode'' = None" by code_simp
  have c: "rx_test True install_rx ''install vscode''" by code_simp
  have n1: "answer_with ?d1 (requestInstall ''install vscode'' JNull) = Inr ?d1"
    by (simp add: answer_with_def)
  have n2: "answer_with ?d2 (requestInstall ''install vscode'' JNull) = Inr ?d2"
    by (simp add: answer_with_def)
  have i1: "\<not> truthy (js_prop ?d1 ''incident'')" by (simp add: js_prop_def)
  have i2: "\<not> truthy (js_prop ?d2 ''incident'')" by (simp add: js_prop_def)
  have o1: "opt_prop ?d1 ''options'' = JArr [JStr ''1.0'', JStr ''2.0'', JStr ''3.0'']"
    by (simp add: opt_prop_def js_prop_def nullish_def)
  have o2: "opt_prop ?d2 ''options'' = JArr [JStr ''1.0'', JStr ''2.0'']"
    by (simp add: opt_prop_def js_prop_def nullish_def)
  have m1: "js_prop ?d1 ''message'' = JStr ''Several versions of vscode exist.''"
    by (simp add: js_prop_def)
  have m2: "js_prop ?d2 ''message'' = JUndefined"
    by (simp add: js_prop_def)
  have r1: "decideAndCallTool_client sample_env (answer_with ?d1) ''install vscode'' idle_client
       = (JStr ''Several versions of vscode exist.'',
          idle_client\<lparr>showChart_c := None,
            pending := Some \<lparr>user_query = ''install vscode'',
                             options = [JStr ''1.0'', JStr ''2.0'', JStr ''3.0'']\<rparr>\<rparr>,
          [requestInstall ''install vscode'' JNull])"
    using install_options_set_pending [where net = "answer_with ?d1" and env = sample_env
        and st = idle_client, OF a b c n1 i1 o1] m1 by simp
  have r2: "fst (decideAndCallTool_client sample_env (answer_with ?d2) ''install vscode'' idle_client)
       = JStr ''Multiple versions found. Please choose one.''"
    using install_options_set_pending [where net = "answer_with ?d2" and env = sample_env
        and st = idle_client, OF a b c n2 i2 o2] m2 by simp
  from a b c r1 r2 show ?thesis by blast
qed

text \<open>
  C5. An install dispatch whose response carries an \<open>options\<close> array of length 0 or 1
  leaves no confirmation pending, whatever the message says (and whether or not the
  response names an incident).
\<close>

theorem install_few_options_clear_pending:
  assumes "checkForChartRequest_client env query = None"
    and "rx_exec True incident_rx query = None"
    and "rx_test True install_rx query"
    and "net (requestInstall query JNull) = Inr data"
    and "opt_prop data ''options'' = JArr opts"
    and "length opts \<le> 1"
  shows "pending (fst (snd (decideAndCallTool_client env net query st))) = None"
  using assms unfolding decideAndCallTool_client_def
  by (simp add: Let_def isArray_def elems_def)

theorem install_few_options_clear_pending_witness:
  "checkForChartRequest_client sample_env ''install vscode'' = None
   \<and> rx_exec True incident_rx ''install vscode'' = None
   \<and> rx_test True install_rx ''install vscode''
   \<and> pending awaiting_client \<noteq> None
   \<and> pending (fst (snd (decideAndCallTool_client sample_env
        (answer_with (JObj [(''options'', JArr [JStr ''1.0'']),
                            (''message'', JStr ''Multiple versions found. Please choose one.'')]))
        ''install vscode'' awaiting_client))) = None
   \<and> pending (fst (snd (decideAndCallTool_client sample_env
        (answer_with (JObj [(''options'', JArr [])])) ''install vscode'' awaiting_client))) = None"
proof -
  let ?d1 = "JObj [(''options'', JArr [JStr ''1.0'']),
                   (''message'', JStr ''Multiple versions found. Please choose one.'')]"
  let ?d0 = "JObj [(''options'', JArr [])]"
  have a: "checkForChartRequest_client sample_env ''install vscode'' = None" by code_simp
  have b: "rx_exec True incident_rx ''install vscode'' = None" by code_simp
  have c: "rx_test True install_rx ''install vscode''" by code_simp
  have p: "pending awaiting_client \<noteq> None" by (simp add: awaiting_client_def)
  have n1: "answer_with ?d1 (requestInstall ''install vscode'' JNull) = Inr ?d1"
    by (simp add: answer_with_def)
  have n0: "answer_with ?d0 (requestInstall ''install vscode'' JNull) = Inr ?d0"
    by (simp add: answer_with_def)
  have o1: "opt_prop ?d1 ''options'' = JArr [JStr ''1.0'']"
    by (simp add: opt_prop_def js_prop_def nullish_def)
  have o0: "opt_prop ?d0 ''options'' = JArr []"
    by (simp add: opt_prop_def js_prop_def nullish_def)
  have r1: "pending (fst (snd (decideAndCallTool_client sample_env (answer_with ?d1)
              ''install vscode'' awaiting_client))) = None"
    using install_few_options_clear_pending [where net = "answer_with ?d1", OF a b c n1 o1] by simp
  have r0: "pending (fst (snd (decideAndCallTool_client sample_env (answer_with ?d0)
              ''install vscode'' awaiting_client))) = None"
    using install_few_options_clear_pending [where net = "answer_with ?d0", OF a b c n0 o0] by simp
  from a b c p r1 r0 show ?thesis by blast
qed

text \<open>
  Whenever a dispatch ends with a confirmation pending, either it was pending before
  and was left alone, or it was built by this dispatch, for its query and with at least
  two options.
\<close>

lemma pending_after_dispatch:
  assumes "pending (fst (snd (decideAndCallTool_client env net query st))) = Some p"
  shows "pending st = Some p \<or> (2 \<le> length (options p) \<and> user_query p = query)"
  using assms unfolding decideAndCallTool_client_def
  by (auto simp: Let_def split: option.splits sum.splits if_splits)

text \<open>
  C6. When the status lookup of an incident dispatch fails, the reply is the status
  error line with the failure's detail and the pending confirmation is what it was
  before the dispatch; when the install lookup or the ticket creation fails, the
  pending confirmation is cleared.
\<close>

theorem status_failure_keeps_pending:
  assumes "checkForChartRequest_client env query = None"
  shows "(\<forall>m e. rx_exec True incident_rx query = Some m \<and> net (showStatus (toUpperCase m)) = Inl e
            \<longrightarrow> pending (fst (snd (decideAndCallTool_client env net query st))) = pending st
              \<and> fst (decideAndCallTool_client env net query st)
                  = JStr (''Error while checking status: '' @ ToString env (error_detail e)))
       \<and> (\<forall>e. rx_exec True incident_rx query = None \<and> rx_test True install_rx query
               \<and> net (requestInstall query JNull) = Inl e
            \<longrightarrow> pending (fst (snd (decideAndCallTool_client env net query st))) = None)
       \<and> (\<forall>e. rx_exec True incident_rx query = None \<and> \<not> rx_test True install_rx query
               \<and> net (createTicket query) = Inl e
            \<longrightarrow> pending (fst (snd (decideAndCallTool_client env net query st))) = None)"
  using assms unfolding decideAndCallTool_client_def
  by (simp add: Let_def)

theorem status_failure_keeps_pending_witness:
  "checkForChartRequest_client sample_env ''status of INC42 please'' = None
   \<and> rx_exec True incident_rx ''status of INC42 please'' = Some ''INC42''
   \<and> pending awaiting_client
       = Some \<lparr>user_query = ''install vscode'', options = [JStr ''1.85'', JStr ''1.86'']\<rparr>
   \<and> pending (fst (snd (decideAndCallTool_client sample_env (reject_with network_error)
        ''status of INC42 please'' awaiting_client))) = pending awaiting_client
   \<and> fst (decideAndCallTool_client sample_env (reject_with network_error)
        ''status of INC42 please'' awaiting_client)
       = JStr ''Error while checking status: Network Error''
   \<and> checkForChartRequest_client sample_env ''install vscode'' = None
   \<and> rx_exec True incident_rx ''install vscode'' = None
   \<and> rx_test True install_rx ''install vscode''
   \<and> pending (fst (snd (decideAndCallTool_client sample_env (reject_with network_error)
        ''install vscode'' awaiting_client))) = None
   \<and> checkForChartRequest_client sample_env ''my laptop is broken'' = None
   \<and> rx_exec True incident_rx ''my laptop is broken'' = None
   \<and> \<not> rx_test True install_rx ''my laptop is broken''
   \<and> pending (fst (snd (decideAndCallTool_client sample_env (reject_with network_error)
        ''my laptop is broken'' awaiting_client))) = None"
proof -
  let ?net = "reject_with network_error"
  have a1: "checkForChartRequest_client sample_env ''status of INC42 please'' = None" by code_simp
  have b1: "rx_exec True incident_rx ''status of INC42 please'' = Some ''INC42''" by code_simp
  have p: "pending awaiting_client
       = Some \<lparr>user_query = ''install vscode'', options = [JStr ''1.85'', JStr ''1.86'']\<rparr>"
    by (simp add: awaiting_client_def idle_client_def)
  have n: "?net req = Inl network_error" for req by (simp add: reject_with_def)
  have t: "ToString sample_env (error_detail network_error) = ''Network Error''"
    by (simp add: error_detail_def network_error_def opt_prop_def nullish_def js_or_def)
  have a2: "checkForChartRequest_client sample_env ''install vscode'' = None" by code_simp
  have b2: "rx_exec True incident_rx ''install vscode'' = None" by code_simp
  have c2: "rx_test True install_rx ''install vscode''" by code_simp
  have a3: "checkForChartRequest_client sample_env ''my laptop is broken'' = None" by code_simp
  have b3: "rx_exec True incident_rx ''my laptop is broken'' = None" by code_simp
  have c3: "\<not> rx_test True install_rx ''my laptop is broken''" by code_simp
  have r1: "pending (fst (snd (decideAndCallTool_client sample_env ?net
               ''status of INC42 please'' awaiting_client))) = pending awaiting_client
            \<and> fst (decideAndCallTool_client sample_env ?net ''status of INC42 please'' awaiting_client)
               = JStr ''Error while checking status: Network Error''"
    using status_failure_keeps_pending [where net = ?net and env = sample_env
        and st = awaiting_client, OF a1] b1 n t by simp
  have r2: "pending (fst (snd (decideAndCallTool_client sample_env ?net
               ''install vscode'' awaiting_client))) = None"
    using status_failure_keeps_pending [where net = ?net and env = sample_env
        and st = awaiting_client, OF a2] b2 c2 n by simp
  have r3: "pending (fst (snd (decideAndCallTool_client sample_env ?net
               ''my laptop is broken'' awaiting_client))) = None"
    using status_failure_keeps_pending [where net = ?net and env = sample_env
        and st = awaiting_client, OF a3] b3 c3 n by simp
  from a1 b1 p r1 a2 b2 c2 r2 a3 b3 c3 r3 show ?thesis by blast
qed

section \<open>Properties of the confirmation\<close>

text \<open>A falsy choice changes nothing and issues no request.\<close>

lemma confirmVersion_empty_choice:
  "\<not> truthy choice \<Longrightarrow> confirmVersion env net choice st = (st, [])"
  by (simp add: confirmVersion_def)

text \<open>
  C3. For every non-empty (truthy) choice, after \<open>confirmVersion\<close> no confirmation is
  pending, whether the install lookup it makes succeeds or fails; one turn is appended
  to the transcript either way.
\<close>

theorem confirmVersion_clears_pending:
  assumes "truthy choice"
  shows "pending (fst (confirmVersion env net choice st)) = None
         \<and> length (messages_c (fst (confirmVersion env net choice st))) = Suc (length (messages_c st))"
  using assms unfolding confirmVersion_def
  by (simp add: Let_def split: option.splits prod.splits sum.splits)

theorem confirmVersion_clears_pending_witness:
  "truthy (JStr ''1.85'')
   \<and> pending awaiting_client \<noteq> None
   \<and> answer_with (JObj [(''incident'', JStr ''INC0010001'')])
        (requestInstall ''install vscode'' (JStr ''1.85''))
       = Inr (JObj [(''incident'', JStr ''INC0010001'')])
   \<and> pending (fst (confirmVersion sample_env (answer_with (JObj [(''incident'', JStr ''INC0010001'')]))
        (JStr ''1.85'') awaiting_client)) = None
   \<and> reject_with network_error (requestInstall ''install vscode'' (JStr ''1.85''))
       = Inl network_error
   \<and> pending (fst (confirmVersion sample_env (reject_with network_error)
        (JStr ''1.85'') awaiting_client)) = None"
proof -
  have h: "truthy (JStr ''1.85'')" by simp
  have p: "pending awaiting_client \<noteq> None" by (simp add: awaiting_client_def)
  have s: "answer_with (JObj [(''incident'', JStr ''INC0010001'')])
             (requestInstall ''install vscode'' (JStr ''1.85''))
           = Inr (JObj [(''incident'', JStr ''INC0010001'')])"
    by (simp add: answer_with_def)
  have f: "reject_with network_error (requestInstall ''install vscode'' (JStr ''1.85''))
           = Inl network_error"
    by (simp add: reject_with_def)
  from confirmVersion_clears_pending [OF h, of sample_env
         "answer_with (JObj [(''incident'', JStr ''INC0010001'')])" awaiting_client]
       confirmVersion_clears_pending [OF h, of sample_env "reject_with network_error" awaiting_client]
       h p s f
  show ?thesis by blast
qed

section \<open>Submitting while a dispatch is in flight\<close>

text \<open>
  The backend-driven variant returns from \<open>handleSend\<close> at once while the thinking flag
  is set, so neither the Enter key nor the button appends a turn or issues a request.
\<close>

lemma send_rejected_while_thinking:
  assumes "thinking st"
  shows "handleSend_remote env cfg net st = (st, [])"
    and "onKeyDown_remote env cfg net key shiftKey st = (st, [])"
    and "onClickSend_remote env cfg net st = (st, [])"
  using assms
  by (simp_all add: handleSend_remote_def handleSend_begin_remote_def onKeyDown_remote_def onClickSend_remote_def)

text \<open>In the client-side variant the disabled button rejects the click.\<close>

lemma client_click_rejected_while_thinking:
  "thinking_c st \<Longrightarrow> onClickSend_client env net st = (st, [])"
  by (simp add: onClickSend_client_def)

text \<open>
  Its Enter key does not look at the thinking flag: whenever the trimmed input is not
  empty, the user's turn and a reply are appended, and a request is issued unless the
  chart heuristic matches.
\<close>

lemma client_enter_ignores_thinking:
  assumes "trim (input_c st) \<noteq> []"
  shows "length (messages_c (fst (onKeyDown_client env net ''Enter'' False st)))
           = length (messages_c st) + 2"
    and "(snd (onKeyDown_client env net ''Enter'' False st) = [])
           = (checkForChartRequest_client env (trim (input_c st)) \<noteq> None)"
proof -
  let ?st1 = "st\<lparr>messages_c := messages_c st @ [user_turn (JStr (trim (input_c st)))],
                  input_c := [], thinking_c := True\<rparr>"
  obtain r st2 calls where d:
    "decideAndCallTool_client env net (trim (input_c st)) ?st1 = (r, st2, calls)"
    by (cases "decideAndCallTool_client env net (trim (input_c st)) ?st1") auto
  have m: "messages_c st2 = messages_c ?st1"
    using decideAndCallTool_client_messages [of env net "trim (input_c st)" ?st1] d by simp
  have c: "(calls = []) = (checkForChartRequest_client env (trim (input_c st)) \<noteq> None)"
    using decideAndCallTool_client_no_call_iff [of env net "trim (input_c st)" ?st1] d by simp
  show "length (messages_c (fst (onKeyDown_client env net ''Enter'' False st)))
           = length (messages_c st) + 2"
    using assms d m
    by (simp add: onKeyDown_client_def handleSend_client_def handleSend_begin_client_def Let_def)
  show "(snd (onKeyDown_client env net ''Enter'' False st) = [])
           = (checkForChartRequest_client env (trim (input_c st)) \<noteq> None)"
    using assms d c
    by (simp add: onKeyDown_client_def handleSend_client_def handleSend_begin_client_def Let_def)
qed

lemma busy_client_reached: "typed_while_waiting = Some busy_client"
  by code_simp

text \<open>
  C2 fails in the client-side variant. With a dispatch in flight and \<open>hello\<close> typed,
  the Enter key appends the user's turn at once, issues the ticket request and, once
  that returns, appends the reply.
\<close>

theorem client_enter_while_thinking_sends:
  "thinking_c busy_client
   \<and> handleSend_begin_client busy_client
       = Some (''hello'',
               busy_client\<lparr>messages_c := [user_turn (JStr ''install vscode''), user_turn (JStr ''hello'')],
                            input_c := [], thinking_c := True\<rparr>)
   \<and> snd (onKeyDown_client sample_env (answer_with (JObj [(''incident'', JStr ''INC0010001'')]))
            ''Enter'' False busy_client) = [createTicket ''hello'']
   \<and> messages_c (fst (onKeyDown_client sample_env
            (answer_with (JObj [(''incident'', JStr ''INC0010001'')])) ''Enter'' False busy_client))
       = [user_turn (JStr ''install vscode''), user_turn (JStr ''hello''),
          assistant_turn (JStr ''Ticket INC0010001 created for: hello'')]"
  by code_simp

section \<open>Properties of the backend-driven dispatch\<close>





section \<open>Properties of the chart normalizer\<close>



text \<open>
  Outside the documented payload type, a \<open>type\<close> that is truthy and not a string makes
  \<open>buildChartJsSpec\<close> throw before it looks at the values.
\<close>

lemma buildChartJsSpec_non_string_type:
  assumes "truthy (opt_prop spec ''type'')" and "\<not> typeof_string (opt_prop spec ''type'')"
  shows "buildChartJsSpec env spec = Inl (TypeError env (opt_prop spec ''type'') ''toLowerCase'')"
  using assms unfolding buildChartJsSpec_def
  by (cases "opt_prop spec ''type''") (simp_all add: js_or_def typeof_string_def)

section \<open>Clearing the session\<close>

text \<open>
  C9. In every state, clearing the session sets the transcript to exactly the two seed
  turns (the system rules and the assistant's greeting) and, in the same step, empties
  the other slots of the variant: the pending confirmation and the chart in the
  client-side variant, the last payload, the chart and the error in the backend-driven
  one.
\<close>

theorem clearSession_resets:
  "messages_c (clearSession_client st)
     = [\<lparr>role = System, content = JStr SYSTEM_RULES_client\<rparr>,
        \<lparr>role = Assistant,
         content = JStr ''Hi! I'm your IT assistant. How can I help you today?''\<rparr>]
   \<and> pending (clearSession_client st) = None
   \<and> showChart_c (clearSession_client st) = None
   \<and> messages (clearSession_remote st')
     = [\<lparr>role = System, content = JStr SYSTEM_RULES_remote\<rparr>,
        \<lparr>role = Assistant,
         content = JStr (''Hi! I'' @ [CHR 0xE2, CHR 0x80, CHR 0x99]
            @ ''m your Sales Insights assistant. Ask me about sales, revenue, products, or trends.'')\<rparr>]
   \<and> lastPayload (clearSession_remote st') = JNull
   \<and> showChart (clearSession_remote st') = None
   \<and> errorMsg (clearSession_remote st') = JStr []"
  by (simp add: clearSession_client_def clearSession_remote_def Let_def)


end
